theory Spec2Isabelle
  imports Complex_Main "HOL-Library.Sublist"
begin

section \<open>Python values\<close>

text \<open>
  The SDK handles decoded JSON (\<^verbatim>\<open>response.json()\<close>, typed \<^verbatim>\<open>Any\<close>) and tests it
  for truthiness, so the decoded value is a datatype of Python values. A Python
  \<^verbatim>\<open>float\<close> is kept by its exact value, with the three non-finite doubles that
  \<^verbatim>\<open>json.loads\<close> also accepts. A \<^verbatim>\<open>dict\<close> is an association list in insertion order;
  the dictionaries the code builds and the ones a decoder returns have distinct keys.
  A \<^verbatim>\<open>str\<close> is a \<open>string\<close>: what the code does with strings (comparing, testing for
  emptiness and for a prefix, joining, stripping \<^verbatim>\<open>/\<close>) reads the same on code points
  and on their UTF-8 bytes.
\<close>

datatype py_float = Finite rat | PosInf | NegInf | NaN

datatype json =
    JNull
  | JBool bool
  | JInt int
  | JFloat py_float
  | JStr string
  | JArr "json list"
  | JObj "(string \<times> json) list"

type_synonym 'a dict = "(string \<times> 'a) list"

text \<open>\<^verbatim>\<open>d.get(k)\<close>, \<^verbatim>\<open>d[k] = v\<close> and \<^verbatim>\<open>del d[k]\<close> on such a dictionary.\<close>

definition dict_get :: "'a dict \<Rightarrow> string \<Rightarrow> 'a option" where
  "dict_get d k = map_of d k"

fun dict_set :: "'a dict \<Rightarrow> string \<Rightarrow> 'a \<Rightarrow> 'a dict" where
  "dict_set [] k v = [(k, v)]"
| "dict_set ((k', v') # d) k v =
     (if k' = k then (k, v) # d else (k', v') # dict_set d k v)"

definition dict_del :: "'a dict \<Rightarrow> string \<Rightarrow> 'a dict" where
  "dict_del d k = filter (\<lambda>kv. fst kv \<noteq> k) d"

text \<open>Python truthiness (\<^verbatim>\<open>bool(x)\<close>) of a decoded value, of a string and of an optional.\<close>

fun truthy :: "json \<Rightarrow> bool" where
  "truthy JNull = False"
| "truthy (JBool b) = b"
| "truthy (JInt i) = (i \<noteq> 0)"
| "truthy (JFloat f) = (f \<noteq> Finite 0)"
| "truthy (JStr s) = (s \<noteq> [])"
| "truthy (JArr xs) = (xs \<noteq> [])"
| "truthy (JObj kvs) = (kvs \<noteq> [])"

fun truthy_opt_str :: "string option \<Rightarrow> bool" where
  "truthy_opt_str None = False"
| "truthy_opt_str (Some s) = (s \<noteq> [])"

fun truthy_opt_dict :: "'a dict option \<Rightarrow> bool" where
  "truthy_opt_dict None = False"
| "truthy_opt_dict (Some d) = (d \<noteq> [])"

text \<open>\<^verbatim>\<open>str(n)\<close> for an integer, as the f-string \<^verbatim>\<open>f"HTTP {response.status_code}"\<close> formats it.\<close>

fun str_nat :: "nat \<Rightarrow> string" where
  "str_nat n =
     (if n < 10 then [''0123456789'' ! n]
      else str_nat (n div 10) @ [''0123456789'' ! (n mod 10)])"

declare str_nat.simps [simp del]

definition str_int :: "int \<Rightarrow> string" where
  "str_int i = (if i < 0 then CHR ''-'' # str_nat (nat (- i)) else str_nat (nat i))"

text \<open>\<^verbatim>\<open>s.rstrip("/")\<close>: every trailing slash goes.\<close>

definition rstrip_slash :: "string \<Rightarrow> string" where
  "rstrip_slash s = rev (dropWhile (\<lambda>c. c = CHR ''/'') (rev s))"

section \<open>exceptions.py\<close>

text \<open>
  The five exception classes. An instance carries \<^verbatim>\<open>message\<close> and \<^verbatim>\<open>status_code\<close>;
  the message is whatever value the caller passes (the error envelope's \<^verbatim>\<open>detail\<close>
  need not be a string). The other constructors of \<open>exn\<close> are the exceptions of
  Python and of the libraries that pass through the SDK uncaught.
\<close>

datatype error_class =
  BatchRouterError | AuthenticationError | NotFoundError | ValidationError | ServerError

datatype exn =
    Raised (cls: error_class) (message: json) (status_code: "int option")
  | JSONDecodeError
  | AttributeError
  | TypeError
  | PydanticValidationError
  | TransportError string

text \<open>The constructors; \<open>None\<close> for the message is the omitted argument.\<close>

definition BatchRouterError_init :: "json \<Rightarrow> int option \<Rightarrow> exn" where
  "BatchRouterError_init msg code = Raised BatchRouterError msg code"

definition AuthenticationError_init :: "json option \<Rightarrow> exn" where
  "AuthenticationError_init msg =
     Raised AuthenticationError
       (case msg of None \<Rightarrow> JStr ''Invalid or missing API key'' | Some m \<Rightarrow> m) (Some 401)"

definition NotFoundError_init :: "json option \<Rightarrow> exn" where
  "NotFoundError_init msg =
     Raised NotFoundError
       (case msg of None \<Rightarrow> JStr ''Resource not found'' | Some m \<Rightarrow> m) (Some 404)"

definition ValidationError_init :: "json option \<Rightarrow> exn" where
  "ValidationError_init msg =
     Raised ValidationError
       (case msg of None \<Rightarrow> JStr ''Validation failed'' | Some m \<Rightarrow> m) (Some 422)"

definition ServerError_init :: "json option \<Rightarrow> exn" where
  "ServerError_init msg =
     Raised ServerError
       (case msg of None \<Rightarrow> JStr ''Server error'' | Some m \<Rightarrow> m) (Some 500)"

section \<open>The transport and the other libraries\<close>

text \<open>
  What the SDK hands to \<^verbatim>\<open>httpx.Client.request\<close>, and what it reads of the
  \<^verbatim>\<open>httpx.Response\<close> it gets back. \<open>resp_json\<close> is the value of
  \<^verbatim>\<open>response.json()\<close>, \<open>None\<close> when that call raises; \<open>is_success\<close> is httpx's
  property, true on the statuses 200 to 299.
\<close>

type_synonym bytes = "nat list"

record request =
  req_method :: string
  req_url :: string
  req_headers :: "string dict"
  req_params :: "json dict option"
  req_json :: "json dict option"
  req_data :: "json dict option"
  req_files :: "(string \<times> bytes \<times> string) dict option"

record response =
  resp_status_code :: int
  resp_json :: "json option"
  resp_text :: string
  resp_content :: bytes

definition is_success :: "response \<Rightarrow> bool" where
  "is_success r = (200 \<le> resp_status_code r \<and> resp_status_code r \<le> 299)"

text \<open>
  The state outside the client: the process environment, the transport clients
  constructed so far (each by its timeout) and the requests dispatched so far.
\<close>

record world =
  environ :: "string \<Rightarrow> string option"
  http_clients :: "rat list"
  sent :: "request list"

section \<open>types.py\<close>

datatype datetime = Datetime string

record Dataset =
  ds_id :: string
  ds_name :: string
  ds_description :: "string option"
  ds_file_size :: "int option"
  ds_record_count :: "int option"
  ds_status :: string
  ds_validation_error :: "string option"
  ds_created_at :: datetime
  ds_updated_at :: "datetime option"

record ModelProvider =
  mp_id :: string
  mp_name :: string
  mp_batch_input_price_per_1m :: "py_float option"
  mp_batch_output_price_per_1m :: "py_float option"
  mp_is_batch_supported :: bool

record Model =
  m_name :: string
  m_display_name :: "string option"
  m_description :: "string option"
  m_context_window :: "int option"
  m_max_output_tokens :: "int option"
  m_capabilities :: "string list"
  m_is_deprecated :: bool
  m_release_date :: "string option"
  m_providers :: "ModelProvider list"

record BatchCreateResponse =
  bcr_id :: string
  bcr_status :: string
  bcr_model :: string
  bcr_provider_id :: "string option"
  bcr_provider_name :: "string option"
  bcr_estimated_cost :: "py_float option"

text \<open>
  The code outside the repository that the SDK calls, taken as parameters: Python's
  \<^verbatim>\<open>str\<close> on a decoded dictionary, the server behind the transport (its answer may
  depend on the requests it has seen; \<open>Inl\<close> is an exception of the transport) and the
  constructors pydantic generates for the classes above, applied to the keyword
  arguments \<^verbatim>\<open>**d\<close>.
\<close>

record externals =
  py_str :: "json \<Rightarrow> string"
  respond :: "request list \<Rightarrow> request \<Rightarrow> exn + response"
  Dataset_new :: "json dict \<Rightarrow> exn + Dataset"
  Model_new :: "json dict \<Rightarrow> exn + Model"
  BatchCreateResponse_new :: "json dict \<Rightarrow> exn + BatchCreateResponse"

text \<open>\<^verbatim>\<open>self._client.request(...)\<close>: the request goes out and the answer comes back.\<close>

definition client_request :: "externals \<Rightarrow> request \<Rightarrow> world \<Rightarrow> (exn + response) \<times> world" where
  "client_request L req w = (respond L (sent w) req, w\<lparr>sent := sent w @ [req]\<rparr>)"

section \<open>client.py\<close>

definition DEFAULT_BASE_URL :: string where
  "DEFAULT_BASE_URL = ''https://api.batchrouter.ai''"

definition DEFAULT_TIMEOUT :: rat where
  "DEFAULT_TIMEOUT = 60"

record BatchRouter =
  api_key :: string
  base_url :: string
  timeout :: rat

text \<open>
  \<^verbatim>\<open>BatchRouter.__init__\<close>, with the timeout (a \<^verbatim>\<open>float\<close> of seconds) by its exact
  value. \<open>None\<close> for an argument is the omitted argument;
  \<^verbatim>\<open>api_key or os.environ.get(...)\<close> takes the environment's value when the argument
  is \<^verbatim>\<open>None\<close> or empty.
\<close>

definition BatchRouter_init ::
  "string option \<Rightarrow> string option \<Rightarrow> rat option \<Rightarrow> world \<Rightarrow> (exn + BatchRouter) \<times> world" where
  "BatchRouter_init api_key_arg base_url_arg timeout_arg w =
     (let key = (if truthy_opt_str api_key_arg then api_key_arg
                 else environ w ''BATCHROUTER_API_KEY'');
          url = (case base_url_arg of None \<Rightarrow> DEFAULT_BASE_URL | Some u \<Rightarrow> u);
          t = (case timeout_arg of None \<Rightarrow> DEFAULT_TIMEOUT | Some t \<Rightarrow> t);
          required = AuthenticationError_init (Some (JStr
            ''API key is required. Pass api_key parameter or set BATCHROUTER_API_KEY env var.''))
      in case key of
           None \<Rightarrow> (Inl required, w)
         | Some k \<Rightarrow>
             if k = [] then (Inl required, w)
             else if \<not> prefix ''br_'' k then
               (Inl (AuthenticationError_init (Some (JStr
                  ''Invalid API key format. API keys should start with 'br_'.''))), w)
             else
               (Inr \<lparr>api_key = k, base_url = rstrip_slash url, timeout = t\<rparr>,
                w\<lparr>http_clients := http_clients w @ [t]\<rparr>))"

definition get_headers :: "BatchRouter \<Rightarrow> string dict" where
  "get_headers self =
     [(''Authorization'', ''Bearer '' @ api_key self),
      (''Content-Type'', ''application/json''),
      (''User-Agent'', ''batchrouter-python/0.1.0'')]"

text \<open>
  \<^verbatim>\<open>_handle_error\<close>. Only a dictionary has \<^verbatim>\<open>.get\<close>: on any other decoded value the
  \<^verbatim>\<open>AttributeError\<close> is caught by the same \<^verbatim>\<open>except\<close> as a failed decode.
\<close>

definition handle_error :: "externals \<Rightarrow> response \<Rightarrow> exn + unit" where
  "handle_error L r =
     (let msg =
        (case resp_json r of
           Some (JObj error_data) \<Rightarrow>
             (case dict_get error_data ''detail'' of
                Some v \<Rightarrow> v
              | None \<Rightarrow> JStr (py_str L (JObj error_data)))
         | _ \<Rightarrow>
             JStr (if resp_text r \<noteq> [] then resp_text r
                   else ''HTTP '' @ str_int (resp_status_code r)))
      in if resp_status_code r = 401 then Inl (AuthenticationError_init (Some msg))
         else if resp_status_code r = 404 then Inl (NotFoundError_init (Some msg))
         else if resp_status_code r = 422 then Inl (ValidationError_init (Some msg))
         else if resp_status_code r \<ge> 500 then Inl (ServerError_init (Some msg))
         else Inl (BatchRouterError_init msg (Some (resp_status_code r))))"

text \<open>
  \<^verbatim>\<open>_request\<close>. Its first half builds what goes to the transport: the URL, the headers
  (without \<^verbatim>\<open>Content-Type\<close> when \<^verbatim>\<open>files\<close> is truthy) and the arguments passed on. The
  value returned is the decoded body; Python's \<^verbatim>\<open>None\<close> is \<open>JNull\<close>, as it is for a
  decoded \<^verbatim>\<open>null\<close>.
\<close>

definition build_request ::
  "BatchRouter \<Rightarrow> string \<Rightarrow> string \<Rightarrow> json dict option \<Rightarrow> json dict option \<Rightarrow>
     json dict option \<Rightarrow> (string \<times> bytes \<times> string) dict option \<Rightarrow> request" where
  "build_request self method path params json_arg data files =
     (let url = base_url self @ ''/api'' @ path;
          headers = get_headers self;
          headers = (if truthy_opt_dict files then dict_del headers ''Content-Type'' else headers)
      in \<lparr>req_method = method, req_url = url, req_headers = headers, req_params = params,
          req_json = json_arg, req_data = data, req_files = files\<rparr>)"

definition request ::
  "externals \<Rightarrow> BatchRouter \<Rightarrow> string \<Rightarrow> string \<Rightarrow> json dict option \<Rightarrow> json dict option \<Rightarrow>
     json dict option \<Rightarrow> (string \<times> bytes \<times> string) dict option \<Rightarrow> world \<Rightarrow> (exn + json) \<times> world" where
  "request L self method path params json_arg data files w =
     (let (res, w') = client_request L
             (build_request self method path params json_arg data files) w
      in case res of
           Inl e \<Rightarrow> (Inl e, w')
         | Inr r \<Rightarrow>
             (case (if \<not> is_success r then handle_error L r else Inr ()) of
                Inl e \<Rightarrow> (Inl e, w')
              | Inr _ \<Rightarrow>
                  if resp_status_code r = 204 then (Inr JNull, w')
                  else (case resp_json r of
                          None \<Rightarrow> (Inl JSONDecodeError, w')
                        | Some j \<Rightarrow> (Inr j, w'))))"

text \<open>
  \<^verbatim>\<open>_request_raw\<close>: the same URL and the full headers, no query and no body; the raw
  bytes come back.
\<close>

definition build_request_raw :: "BatchRouter \<Rightarrow> string \<Rightarrow> string \<Rightarrow> request" where
  "build_request_raw self method path =
     (let url = base_url self @ ''/api'' @ path;
          headers = get_headers self
      in \<lparr>req_method = method, req_url = url, req_headers = headers, req_params = None,
          req_json = None, req_data = None, req_files = None\<rparr>)"

definition request_raw ::
  "externals \<Rightarrow> BatchRouter \<Rightarrow> string \<Rightarrow> string \<Rightarrow> world \<Rightarrow> (exn + bytes) \<times> world" where
  "request_raw L self method path w =
     (let (res, w') = client_request L (build_request_raw self method path) w
      in case res of
           Inl e \<Rightarrow> (Inl e, w')
         | Inr r \<Rightarrow>
             (case (if \<not> is_success r then handle_error L r else Inr ()) of
                Inl e \<Rightarrow> (Inl e, w')
              | Inr _ \<Rightarrow> (Inr (resp_content r), w')))"

section \<open>The resource classes\<close>

text \<open>
  \<^verbatim>\<open>Cls(**d)\<close> needs a mapping, and a \<^verbatim>\<open>for\<close> over a decoded value walks a list's
  elements, a string's characters or a dictionary's keys; the other values are not
  iterable. A list comprehension stops at the first element whose construction raises.
\<close>

fun kwargs :: "json \<Rightarrow> exn + json dict" where
  "kwargs (JObj kw) = Inr kw"
| "kwargs _ = Inl TypeError"

fun py_iter :: "json \<Rightarrow> exn + json list" where
  "py_iter (JArr xs) = Inr xs"
| "py_iter (JStr s) = Inr (map (\<lambda>c. JStr [c]) s)"
| "py_iter (JObj kvs) = Inr (map (\<lambda>kv. JStr (fst kv)) kvs)"
| "py_iter _ = Inl TypeError"

definition construct :: "(json dict \<Rightarrow> exn + 'a) \<Rightarrow> json \<Rightarrow> exn + 'a" where
  "construct new d = (case kwargs d of Inl e \<Rightarrow> Inl e | Inr kw \<Rightarrow> new kw)"

fun construct_all :: "(json dict \<Rightarrow> exn + 'a) \<Rightarrow> json list \<Rightarrow> exn + 'a list" where
  "construct_all new [] = Inr []"
| "construct_all new (d # ds) =
     (case construct new d of
        Inl e \<Rightarrow> Inl e
      | Inr x \<Rightarrow> (case construct_all new ds of Inl e \<Rightarrow> Inl e | Inr xs \<Rightarrow> Inr (x # xs)))"

subsection \<open>batches.py\<close>

text \<open>\<^verbatim>\<open>Batches.create\<close>; \<open>None\<close> for \<open>model_arg\<close> is the omitted argument.\<close>

definition create_payload :: "string \<Rightarrow> string \<Rightarrow> string option \<Rightarrow> string option \<Rightarrow> json dict" where
  "create_payload dataset_name model provider description =
     (let payload = [(''dataset_name'', JStr dataset_name), (''model'', JStr model)];
          payload = (case provider of
                       Some p \<Rightarrow> if p \<noteq> [] then dict_set payload ''provider'' (JStr p) else payload
                     | None \<Rightarrow> payload);
          payload = (case description of
                       Some d \<Rightarrow> if d \<noteq> [] then dict_set payload ''description'' (JStr d) else payload
                     | None \<Rightarrow> payload)
      in payload)"

definition Batches_create ::
  "externals \<Rightarrow> BatchRouter \<Rightarrow> string \<Rightarrow> string option \<Rightarrow> string option \<Rightarrow> string option \<Rightarrow>
     world \<Rightarrow> (exn + BatchCreateResponse) \<times> world" where
  "Batches_create L self dataset_name model_arg provider description w =
     (let model = (case model_arg of None \<Rightarrow> ''auto'' | Some m \<Rightarrow> m);
          payload = create_payload dataset_name model provider description;
          (res, w') = request L self ''POST'' ''/v1/batches'' None (Some payload) None None w
      in case res of
           Inl e \<Rightarrow> (Inl e, w')
         | Inr r \<Rightarrow> (construct (BatchCreateResponse_new L) r, w'))"

subsection \<open>datasets.py\<close>

text \<open>\<^verbatim>\<open>Datasets.list\<close>; only a dictionary has \<^verbatim>\<open>.get\<close>.\<close>

definition Datasets_list ::
  "externals \<Rightarrow> BatchRouter \<Rightarrow> int option \<Rightarrow> int option \<Rightarrow> world \<Rightarrow> (exn + Dataset list) \<times> world" where
  "Datasets_list L self page_arg page_size_arg w =
     (let page = (case page_arg of None \<Rightarrow> 1 | Some p \<Rightarrow> p);
          page_size = (case page_size_arg of None \<Rightarrow> 20 | Some p \<Rightarrow> p);
          (res, w') = request L self ''GET'' ''/v1/datasets''
             (Some [(''page'', JInt page), (''page_size'', JInt page_size)]) None None None w
      in case res of
           Inl e \<Rightarrow> (Inl e, w')
         | Inr (JObj r) \<Rightarrow>
             (case py_iter (case dict_get r ''data'' of None \<Rightarrow> JArr [] | Some v \<Rightarrow> v) of
                Inl e \<Rightarrow> (Inl e, w')
              | Inr ds \<Rightarrow> (construct_all (Dataset_new L) ds, w'))
         | Inr _ \<Rightarrow> (Inl AttributeError, w'))"

text \<open>The \<^verbatim>\<open>for\<close> loop of \<^verbatim>\<open>Datasets.get_by_name\<close>, and the method.\<close>

fun get_by_name_loop :: "Dataset list \<Rightarrow> string \<Rightarrow> Dataset option" where
  "get_by_name_loop [] name = None"
| "get_by_name_loop (dataset # datasets) name =
     (if ds_name dataset = name then Some dataset else get_by_name_loop datasets name)"

definition Datasets_get_by_name ::
  "externals \<Rightarrow> BatchRouter \<Rightarrow> string \<Rightarrow> world \<Rightarrow> (exn + Dataset option) \<times> world" where
  "Datasets_get_by_name L self name w =
     (let (res, w') = Datasets_list L self None (Some 100) w
      in case res of
           Inl e \<Rightarrow> (Inl e, w')
         | Inr datasets \<Rightarrow> (Inr (get_by_name_loop datasets name), w'))"

subsection \<open>models.py\<close>

definition Models_get ::
  "externals \<Rightarrow> BatchRouter \<Rightarrow> string \<Rightarrow> world \<Rightarrow> (exn + Model option) \<times> world" where
  "Models_get L self name w =
     (let (res, w') = request L self ''GET'' (''/v1/routing/models/'' @ name) None None None None w
      in case res of
           Inl e \<Rightarrow> (Inl e, w')
         | Inr r \<Rightarrow>
             if truthy r then
               (case construct (Model_new L) r of
                  Inl e \<Rightarrow> (Inl e, w')
                | Inr m \<Rightarrow> (Inr (Some m), w'))
             else (Inr None, w'))"

section \<open>Example collaborators\<close>

text \<open>
  One instance of the parameters, for evaluating the SDK on concrete inputs: a server
  that gives the same answer to every request, and constructors that take the required
  fields when they are strings and leave the optional ones at their defaults.
\<close>

definition example_Dataset_new :: "json dict \<Rightarrow> exn + Dataset" where
  "example_Dataset_new kw =
     (case (dict_get kw ''id'', dict_get kw ''name'', dict_get kw ''status'',
            dict_get kw ''created_at'') of
        (Some (JStr i), Some (JStr n), Some (JStr s), Some (JStr c)) \<Rightarrow>
          Inr \<lparr>ds_id = i, ds_name = n, ds_description = None, ds_file_size = None,
               ds_record_count = None, ds_status = s, ds_validation_error = None,
               ds_created_at = Datetime c, ds_updated_at = None\<rparr>
      | _ \<Rightarrow> Inl PydanticValidationError)"

definition example_Model_new :: "json dict \<Rightarrow> exn + Model" where
  "example_Model_new kw =
     (case dict_get kw ''name'' of
        Some (JStr n) \<Rightarrow>
          Inr \<lparr>m_name = n, m_display_name = None, m_description = None,
               m_context_window = None, m_max_output_tokens = None, m_capabilities = [],
               m_is_deprecated = False, m_release_date = None, m_providers = []\<rparr>
      | _ \<Rightarrow> Inl PydanticValidationError)"

definition example_BatchCreateResponse_new :: "json dict \<Rightarrow> exn + BatchCreateResponse" where
  "example_BatchCreateResponse_new kw =
     (case (dict_get kw ''id'', dict_get kw ''status'', dict_get kw ''model'') of
        (Some (JStr i), Some (JStr s), Some (JStr m)) \<Rightarrow>
          Inr \<lparr>bcr_id = i, bcr_status = s, bcr_model = m, bcr_provider_id = None,
               bcr_provider_name = None, bcr_estimated_cost = None\<rparr>
      | _ \<Rightarrow> Inl PydanticValidationError)"

definition example_externals :: "response \<Rightarrow> externals" where
  "example_externals answer =
     \<lparr>py_str = (\<lambda>_. ''{}''), respond = (\<lambda>_ _. Inr answer),
      Dataset_new = example_Dataset_new, Model_new = example_Model_new,
      BatchCreateResponse_new = example_BatchCreateResponse_new\<rparr>"

definition example_world :: world where
  "example_world = \<lparr>environ = (\<lambda>_. None), http_clients = [], sent = []\<rparr>"

definition example_world_env :: world where
  "example_world_env =
     \<lparr>environ = (\<lambda>k. if k = ''BATCHROUTER_API_KEY'' then Some ''br_env_key_456'' else None),
      http_clients = [], sent = []\<rparr>"

definition example_client :: BatchRouter where
  "example_client =
     \<lparr>api_key = ''br_test_key_123'', base_url = ''https://api.batchrouter.ai'', timeout = 60\<rparr>"

definition example_response :: "int \<Rightarrow> json option \<Rightarrow> string \<Rightarrow> response" where
  "example_response c j t =
     \<lparr>resp_status_code = c, resp_json = j, resp_text = t, resp_content = []\<rparr>"

definition example_page :: json where
  "example_page =
     JObj [(''data'', JArr
       [JObj [(''id'', JStr ''ds_1''), (''name'', JStr ''other-dataset''),
              (''status'', JStr ''validated''), (''created_at'', JStr ''2025-01-01T00:00:00Z'')],
        JObj [(''id'', JStr ''ds_2''), (''name'', JStr ''target-dataset''),
              (''status'', JStr ''validated''), (''created_at'', JStr ''2025-01-02T00:00:00Z'')],
        JObj [(''id'', JStr ''ds_3''), (''name'', JStr ''target-dataset''),
              (''status'', JStr ''pending''), (''created_at'', JStr ''2025-01-03T00:00:00Z'')]])]"

section \<open>Facts about the mediator\<close>

lemmas exception_inits =
  BatchRouterError_init_def AuthenticationError_init_def NotFoundError_init_def
  ValidationError_init_def ServerError_init_def

lemma handle_error_Raised: "\<exists>k m s. handle_error L r = Inl (Raised k m s)"
  by (simp add: handle_error_def Let_def exception_inits)

lemma request_sent:
  "sent (snd (request L self method path params j data files w)) =
     sent w @ [build_request self method path params j data files]"
  by (simp add: request_def client_request_def Let_def split: sum.splits option.splits)

lemma request_raw_sent:
  "sent (snd (request_raw L self method path w)) =
     sent w @ [build_request_raw self method path]"
  by (simp add: request_raw_def client_request_def Let_def split: sum.splits option.splits)

lemma request_non_success:
  assumes "respond L (sent w) (build_request self method path params j data files) = Inr r"
    and "\<not> is_success r" and "handle_error L r = Inl e"
  shows "fst (request L self method path params j data files w) = Inl e"
  using assms by (simp add: request_def client_request_def)

lemma request_success:
  assumes "respond L (sent w) (build_request self method path params j data files) = Inr r"
    and "is_success r"
  shows "fst (request L self method path params j data files w) =
     (if resp_status_code r = 204 then Inr JNull
      else case resp_json r of None \<Rightarrow> Inl JSONDecodeError | Some v \<Rightarrow> Inr v)"
  using assms by (simp add: request_def client_request_def split: option.splits)

lemma is_success_204: "resp_status_code r = 204 \<Longrightarrow> is_success r"
  by (simp add: is_success_def)

text \<open>
  Claim C1. Whatever the response, \<open>handle_error\<close> raises (it never returns), and the
  class raised is the one its status selects: 401 \<open>AuthenticationError\<close>, 404
  \<open>NotFoundError\<close>, 422 \<open>ValidationError\<close>, 500 and above \<open>ServerError\<close>, any other
  status the base \<open>BatchRouterError\<close> with \<open>status_code\<close> the status itself. When the
  transport answers a request with a status outside 200..299, \<open>request\<close> ends in that
  very exception.
\<close>

theorem handle_error_raises:
  "\<exists>k m s. handle_error L r = Inl (Raised k m s) \<and>
     (resp_status_code r = 401 \<longrightarrow> k = AuthenticationError) \<and>
     (resp_status_code r = 404 \<longrightarrow> k = NotFoundError) \<and>
     (resp_status_code r = 422 \<longrightarrow> k = ValidationError) \<and>
     (resp_status_code r \<ge> 500 \<longrightarrow> k = ServerError) \<and>
     (resp_status_code r \<notin> {401, 404, 422} \<and> resp_status_code r < 500 \<longrightarrow>
        k = BatchRouterError \<and> s = Some (resp_status_code r)) \<and>
     (respond L (sent w) (build_request self method path params j data files) = Inr r
        \<and> \<not> is_success r \<longrightarrow>
      fst (request L self method path params j data files w) = Inl (Raised k m s))"
proof -
  obtain k m s where e: "handle_error L r = Inl (Raised k m s)"
    using handle_error_Raised by blast
  have classes:
    "(resp_status_code r = 401 \<longrightarrow> k = AuthenticationError) \<and>
     (resp_status_code r = 404 \<longrightarrow> k = NotFoundError) \<and>
     (resp_status_code r = 422 \<longrightarrow> k = ValidationError) \<and>
     (resp_status_code r \<ge> 500 \<longrightarrow> k = ServerError) \<and>
     (resp_status_code r \<notin> {401, 404, 422} \<and> resp_status_code r < 500 \<longrightarrow>
        k = BatchRouterError \<and> s = Some (resp_status_code r))"
    using e by (auto simp add: handle_error_def Let_def exception_inits split: if_splits)
  have "respond L (sent w) (build_request self method path params j data files) = Inr r
        \<and> \<not> is_success r \<longrightarrow>
      fst (request L self method path params j data files w) = Inl (Raised k m s)"
    using e request_non_success by blast
  with e classes show ?thesis by blast
qed

theorem handle_error_raises_witness:
  "(\<exists>m s. handle_error (example_externals (example_response 200 None []))
       (example_response 401 (Some (JObj [(''detail'', JStr ''Invalid API key'')])) []) =
       Inl (Raised AuthenticationError m s)) \<and>
   (\<exists>m s. handle_error (example_externals (example_response 200 None []))
       (example_response 404 (Some (JObj [(''detail'', JStr ''Batch not found'')])) []) =
       Inl (Raised NotFoundError m s)) \<and>
   (\<exists>m s. handle_error (example_externals (example_response 200 None []))
       (example_response 422 (Some (JObj [(''detail'', JStr ''Invalid dataset format'')])) []) =
       Inl (Raised ValidationError m s)) \<and>
   (\<exists>m s. handle_error (example_externals (example_response 200 None []))
       (example_response 502 None ''Bad Gateway'') = Inl (Raised ServerError m s)) \<and>
   (\<exists>m. handle_error (example_externals (example_response 200 None []))
       (example_response 429 (Some (JObj [(''detail'', JStr ''Rate limited'')])) []) =
       Inl (Raised BatchRouterError m (Some 429))) \<and>
   (\<exists>m s. fst (request (example_externals (example_response 502 None ''Bad Gateway''))
       example_client ''GET'' ''/v1/test'' None None None None example_world) =
       Inl (Raised ServerError m s))"
proof -
  let ?L = "example_externals (example_response 200 None [])"
  have 1: "\<exists>m s. handle_error ?L
       (example_response 401 (Some (JObj [(''detail'', JStr ''Invalid API key'')])) []) =
       Inl (Raised AuthenticationError m s)"
    using handle_error_raises [of ?L
        "example_response 401 (Some (JObj [(''detail'', JStr ''Invalid API key'')])) []"
        example_world example_client "''GET''" "''/v1/test''" None None None None]
    by (auto simp add: example_response_def)
  have 2: "\<exists>m s. handle_error ?L
       (example_response 404 (Some (JObj [(''detail'', JStr ''Batch not found'')])) []) =
       Inl (Raised NotFoundError m s)"
    using handle_error_raises [of ?L
        "example_response 404 (Some (JObj [(''detail'', JStr ''Batch not found'')])) []"
        example_world example_client "''GET''" "''/v1/test''" None None None None]
    by (auto simp add: example_response_def)
  have 3: "\<exists>m s. handle_error ?L
       (example_response 422 (Some (JObj [(''detail'', JStr ''Invalid dataset format'')])) []) =
       Inl (Raised ValidationError m s)"
    using handle_error_raises [of ?L
        "example_response 422 (Some (JObj [(''detail'', JStr ''Invalid dataset format'')])) []"
        example_world example_client "''GET''" "''/v1/test''" None None None None]
    by (auto simp add: example_response_def)
  have 4: "\<exists>m s. handle_error ?L (example_response 502 None ''Bad Gateway'') =
       Inl (Raised ServerError m s)"
    using handle_error_raises [of ?L "example_response 502 None ''Bad Gateway''"
        example_world example_client "''GET''" "''/v1/test''" None None None None]
    by (auto simp add: example_response_def)
  have 5: "\<exists>m. handle_error ?L
       (example_response 429 (Some (JObj [(''detail'', JStr ''Rate limited'')])) []) =
       Inl (Raised BatchRouterError m (Some 429))"
    using handle_error_raises [of ?L
        "example_response 429 (Some (JObj [(''detail'', JStr ''Rate limited'')])) []"
        example_world example_client "''GET''" "''/v1/test''" None None None None]
    by (auto simp add: example_response_def)
  have 6: "\<exists>m s. fst (request (example_externals (example_response 502 None ''Bad Gateway''))
       example_client ''GET'' ''/v1/test'' None None None None example_world) =
       Inl (Raised ServerError m s)"
    using handle_error_raises [of "example_externals (example_response 502 None ''Bad Gateway'')"
        "example_response 502 None ''Bad Gateway''" example_world example_client
        "''GET''" "''/v1/test''" None None None None]
    by (auto simp add: example_response_def example_externals_def is_success_def)
  from 1 2 3 4 5 6 show ?thesis by blast
qed

text \<open>
  Claim C2. The claim that every raised error carries the status of its response fails
  on the 5xx statuses other than 500: \<open>ServerError\<close> binds 500 and takes no status, so
  a 502 response raises a \<open>ServerError\<close> whose \<open>status_code\<close> is 500.
\<close>

theorem ServerError_status_counterexample:
  "handle_error (example_externals (example_response 200 None []))
     (example_response 502 None ''Bad Gateway'') =
     Inl (Raised ServerError (JStr ''Bad Gateway'') (Some 500)) \<and>
   status_code (Raised ServerError (JStr ''Bad Gateway'') (Some 500)) \<noteq>
     Some (resp_status_code (example_response 502 None ''Bad Gateway''))"
  by (simp add: handle_error_def example_response_def ServerError_init_def)

text \<open>
  Claim C2, as the code has it: the error raised by \<open>handle_error\<close> carries the status
  bound to its class, which is the status of the response when that is below 500 or
  is 500, and is 500 for every status of 500 and above.
\<close>

theorem handle_error_status:
  "\<exists>k m. handle_error L r =
     Inl (Raised k m (Some (if resp_status_code r \<ge> 500 then 500 else resp_status_code r)))"
  by (simp add: handle_error_def Let_def exception_inits)

text \<open>
  Claim C3. The message of the raised error: the value of \<open>detail\<close> when the body decodes
  to a dictionary that has the key; when decoding fails, the response text if it is
  not empty, and \<^verbatim>\<open>HTTP <status>\<close> if it is.
\<close>

theorem handle_error_message:
  "(\<forall>error_data v.
      resp_json r = Some (JObj error_data) \<and> dict_get error_data ''detail'' = Some v \<longrightarrow>
      (\<exists>k s. handle_error L r = Inl (Raised k v s))) \<and>
   (resp_json r = None \<and> resp_text r \<noteq> [] \<longrightarrow>
      (\<exists>k s. handle_error L r = Inl (Raised k (JStr (resp_text r)) s))) \<and>
   (resp_json r = None \<and> resp_text r = [] \<longrightarrow>
      (\<exists>k s. handle_error L r =
         Inl (Raised k (JStr (''HTTP '' @ str_int (resp_status_code r))) s)))"
  by (simp add: handle_error_def Let_def exception_inits)

theorem handle_error_message_witness:
  "(\<exists>k s. handle_error (example_externals (example_response 200 None []))
       (example_response 401 (Some (JObj [(''detail'', JStr ''Invalid API key'')])) []) =
       Inl (Raised k (JStr ''Invalid API key'') s)) \<and>
   (\<exists>k s. handle_error (example_externals (example_response 200 None []))
       (example_response 500 None ''Internal Server Error'') =
       Inl (Raised k (JStr ''Internal Server Error'') s)) \<and>
   (\<exists>k s. handle_error (example_externals (example_response 200 None []))
       (example_response 500 None []) = Inl (Raised k (JStr ''HTTP 500'') s))"
proof -
  let ?L = "example_externals (example_response 200 None [])"
  have 1: "\<exists>k s. handle_error ?L
       (example_response 401 (Some (JObj [(''detail'', JStr ''Invalid API key'')])) []) =
       Inl (Raised k (JStr ''Invalid API key'') s)"
    using handle_error_message [of
        "example_response 401 (Some (JObj [(''detail'', JStr ''Invalid API key'')])) []" ?L]
    by (simp add: example_response_def dict_get_def)
  have 2: "\<exists>k s. handle_error ?L (example_response 500 None ''Internal Server Error'') =
       Inl (Raised k (JStr ''Internal Server Error'') s)"
    using handle_error_message [of "example_response 500 None ''Internal Server Error''" ?L]
    by (simp add: example_response_def)
  have 3: "\<exists>k s. handle_error ?L (example_response 500 None []) =
       Inl (Raised k (JStr ''HTTP 500'') s)"
    using handle_error_message [of "example_response 500 None []" ?L]
    by (simp add: example_response_def str_int_def str_nat.simps)
  from 1 2 3 show ?thesis by blast
qed

section \<open>Facts about construction\<close>

lemma sublist_required:
  "sublist ''API key is required''
     ''API key is required. Pass api_key parameter or set BATCHROUTER_API_KEY env var.''"
  by code_simp

lemma sublist_prefix_hint:
  "sublist ''br_'' ''Invalid API key format. API keys should start with 'br_'.''"
  by code_simp

lemma init_required:
  assumes "\<not> truthy_opt_str a" and "\<not> truthy_opt_str (environ w ''BATCHROUTER_API_KEY'')"
  shows "BatchRouter_init a b t w =
     (Inl (Raised AuthenticationError (JStr
        ''API key is required. Pass api_key parameter or set BATCHROUTER_API_KEY env var.'')
        (Some 401)), w)"
  using assms
  by (cases "environ w ''BATCHROUTER_API_KEY''")
     (simp_all add: BatchRouter_init_def Let_def AuthenticationError_init_def)

lemma init_format:
  assumes "k \<noteq> []" and "\<not> prefix ''br_'' k"
    and "a = Some k \<or> (\<not> truthy_opt_str a \<and> environ w ''BATCHROUTER_API_KEY'' = Some k)"
  shows "BatchRouter_init a b t w =
     (Inl (Raised AuthenticationError (JStr
        ''Invalid API key format. API keys should start with 'br_'.'') (Some 401)), w)"
  using assms
  by (auto simp add: BatchRouter_init_def Let_def AuthenticationError_init_def)

lemma init_ok:
  assumes "prefix ''br_'' k"
    and "a = Some k \<or> (\<not> truthy_opt_str a \<and> environ w ''BATCHROUTER_API_KEY'' = Some k)"
  shows "BatchRouter_init a b t w =
     (Inr \<lparr>api_key = k,
           base_url = rstrip_slash (case b of None \<Rightarrow> DEFAULT_BASE_URL | Some u \<Rightarrow> u),
           timeout = (case t of None \<Rightarrow> DEFAULT_TIMEOUT | Some x \<Rightarrow> x)\<rparr>,
      w\<lparr>http_clients := http_clients w @ [case t of None \<Rightarrow> DEFAULT_TIMEOUT | Some x \<Rightarrow> x]\<rparr>)"
  using assms
  by (auto simp add: BatchRouter_init_def Let_def)

lemma init_Inr:
  assumes "BatchRouter_init a b t w = (Inr self, w')"
  shows "prefix ''br_'' (api_key self) \<and>
         (a = Some (api_key self) \<or>
          (\<not> truthy_opt_str a \<and> environ w ''BATCHROUTER_API_KEY'' = Some (api_key self))) \<and>
         base_url self = rstrip_slash (case b of None \<Rightarrow> DEFAULT_BASE_URL | Some u \<Rightarrow> u)"
  using assms
  by (auto simp add: BatchRouter_init_def Let_def split: option.splits if_splits)

lemma example_init:
  "BatchRouter_init (Some ''br_test_key_123'') None None example_world =
     (Inr example_client, example_world\<lparr>http_clients := [60]\<rparr>)"
  by (simp add: BatchRouter_init_def example_world_def example_client_def DEFAULT_BASE_URL_def
      DEFAULT_TIMEOUT_def rstrip_slash_def)

text \<open>
  Claim C4. Read for every string given as the credential, the claim fails on the
  empty one, which does not start with \<^verbatim>\<open>br_\<close>: the constructor takes the
  environment's credential instead and succeeds when that one is well formed, and with
  nothing in the environment it raises the error of the missing credential, whose
  message does not mention the prefix.
\<close>

theorem empty_credential_counterexample:
  "\<not> prefix ''br_'' [] \<and>
   BatchRouter_init (Some []) None None example_world_env =
     (Inr \<lparr>api_key = ''br_env_key_456'', base_url = ''https://api.batchrouter.ai'', timeout = 60\<rparr>,
      example_world_env\<lparr>http_clients := [60]\<rparr>) \<and>
   BatchRouter_init (Some []) None None example_world =
     (Inl (Raised AuthenticationError (JStr
        ''API key is required. Pass api_key parameter or set BATCHROUTER_API_KEY env var.'')
        (Some 401)), example_world) \<and>
   \<not> sublist ''br_''
        ''API key is required. Pass api_key parameter or set BATCHROUTER_API_KEY env var.''"
proof -
  have 1: "\<not> prefix ''br_'' []"
    by simp
  have 2: "BatchRouter_init (Some []) None None example_world_env =
     (Inr \<lparr>api_key = ''br_env_key_456'', base_url = ''https://api.batchrouter.ai'', timeout = 60\<rparr>,
      example_world_env\<lparr>http_clients := [60]\<rparr>)"
    by (simp add: BatchRouter_init_def example_world_env_def DEFAULT_BASE_URL_def
        DEFAULT_TIMEOUT_def rstrip_slash_def)
  have 3: "BatchRouter_init (Some []) None None example_world =
     (Inl (Raised AuthenticationError (JStr
        ''API key is required. Pass api_key parameter or set BATCHROUTER_API_KEY env var.'')
        (Some 401)), example_world)"
    by (simp add: BatchRouter_init_def example_world_def AuthenticationError_init_def)
  have 4: "\<not> sublist ''br_''
        ''API key is required. Pass api_key parameter or set BATCHROUTER_API_KEY env var.''"
    by code_simp
  from 1 2 3 4 show ?thesis by blast
qed

text \<open>
  Claim C4, as the code has it. Construction with no credential (the argument omitted
  or empty, and no value or an empty one in the environment) raises
  \<open>AuthenticationError\<close> with a message that contains \<^verbatim>\<open>API key is required\<close>;
  construction with a credential that is not empty (given as the argument, or found in
  the environment when the argument is omitted or empty) and does not start with
  \<^verbatim>\<open>br_\<close> raises \<open>AuthenticationError\<close> with a message that contains \<^verbatim>\<open>br_\<close>. In both
  cases the state of the world is returned as it was: no transport client has been
  constructed.
\<close>

theorem BatchRouter_init_rejects:
  "(\<not> truthy_opt_str a \<and> \<not> truthy_opt_str (environ w ''BATCHROUTER_API_KEY'') \<longrightarrow>
      (\<exists>m. BatchRouter_init a b t w = (Inl (Raised AuthenticationError (JStr m) (Some 401)), w)
           \<and> sublist ''API key is required'' m)) \<and>
   (\<forall>k. k \<noteq> [] \<and> \<not> prefix ''br_'' k \<and>
        (a = Some k \<or> (\<not> truthy_opt_str a \<and> environ w ''BATCHROUTER_API_KEY'' = Some k)) \<longrightarrow>
      (\<exists>m. BatchRouter_init a b t w = (Inl (Raised AuthenticationError (JStr m) (Some 401)), w)
           \<and> sublist ''br_'' m))"
  using init_required [of a w b t] init_format [of _ a w b t]
    sublist_required sublist_prefix_hint
  by blast

theorem BatchRouter_init_rejects_witness:
  "(\<exists>m. BatchRouter_init None None None example_world =
          (Inl (Raised AuthenticationError (JStr m) (Some 401)), example_world)
        \<and> sublist ''API key is required'' m) \<and>
   (\<exists>m. BatchRouter_init (Some ''invalid_key_without_prefix'') None None example_world =
          (Inl (Raised AuthenticationError (JStr m) (Some 401)), example_world)
        \<and> sublist ''br_'' m) \<and>
   http_clients example_world = []"
proof -
  have "\<not> truthy_opt_str None \<and> \<not> truthy_opt_str (environ example_world ''BATCHROUTER_API_KEY'')"
    by (simp add: example_world_def)
  then have 1: "\<exists>m. BatchRouter_init None None None example_world =
          (Inl (Raised AuthenticationError (JStr m) (Some 401)), example_world)
        \<and> sublist ''API key is required'' m"
    using BatchRouter_init_rejects [of None example_world None None] by blast
  have "''invalid_key_without_prefix'' \<noteq> [] \<and> \<not> prefix ''br_'' ''invalid_key_without_prefix''"
    by simp
  then have 2: "\<exists>m. BatchRouter_init (Some ''invalid_key_without_prefix'') None None example_world =
          (Inl (Raised AuthenticationError (JStr m) (Some 401)), example_world)
        \<and> sublist ''br_'' m"
    using BatchRouter_init_rejects [of "Some ''invalid_key_without_prefix''" example_world None None]
    by blast
  have 3: "http_clients example_world = []"
    by (simp add: example_world_def)
  from 1 2 3 show ?thesis by blast
qed

text \<open>
  Claim C9. An empty string given as the credential is treated as an omitted one: the
  constructor does with it what it does with no argument, so it takes the credential
  from the environment, and raises \<open>AuthenticationError\<close> when the environment has none
  or an empty one. No constructed client stores an empty credential.
\<close>

theorem empty_api_key_is_absent:
  "BatchRouter_init (Some []) b t w = BatchRouter_init None b t w \<and>
   (\<not> truthy_opt_str (environ w ''BATCHROUTER_API_KEY'') \<longrightarrow>
      (\<exists>m. BatchRouter_init (Some []) b t w = (Inl (Raised AuthenticationError m (Some 401)), w))) \<and>
   (\<forall>k. environ w ''BATCHROUTER_API_KEY'' = Some k \<and> prefix ''br_'' k \<longrightarrow>
      (\<exists>self w'. BatchRouter_init (Some []) b t w = (Inr self, w') \<and> api_key self = k)) \<and>
   (\<forall>self w'. BatchRouter_init a b t w = (Inr self, w') \<longrightarrow> api_key self \<noteq> [])"
proof -
  have 1: "BatchRouter_init (Some []) b t w = BatchRouter_init None b t w"
    by (simp add: BatchRouter_init_def)
  have 2: "\<not> truthy_opt_str (environ w ''BATCHROUTER_API_KEY'') \<longrightarrow>
      (\<exists>m. BatchRouter_init (Some []) b t w = (Inl (Raised AuthenticationError m (Some 401)), w))"
    using init_required [of "Some []" w b t] by simp
  have 3: "\<forall>k. environ w ''BATCHROUTER_API_KEY'' = Some k \<and> prefix ''br_'' k \<longrightarrow>
      (\<exists>self w'. BatchRouter_init (Some []) b t w = (Inr self, w') \<and> api_key self = k)"
  proof (intro allI impI)
    fix k assume k: "environ w ''BATCHROUTER_API_KEY'' = Some k \<and> prefix ''br_'' k"
    then have "BatchRouter_init (Some []) b t w =
      (Inr \<lparr>api_key = k,
           base_url = rstrip_slash (case b of None \<Rightarrow> DEFAULT_BASE_URL | Some u \<Rightarrow> u),
           timeout = (case t of None \<Rightarrow> DEFAULT_TIMEOUT | Some x \<Rightarrow> x)\<rparr>,
       w\<lparr>http_clients := http_clients w @ [case t of None \<Rightarrow> DEFAULT_TIMEOUT | Some x \<Rightarrow> x]\<rparr>)"
      by (intro init_ok) simp_all
    then show "\<exists>self w'. BatchRouter_init (Some []) b t w = (Inr self, w') \<and> api_key self = k"
      by simp
  qed
  have 4: "\<forall>self w'. BatchRouter_init a b t w = (Inr self, w') \<longrightarrow> api_key self \<noteq> []"
    using init_Inr [of a b t w] by fastforce
  from 1 2 3 4 show ?thesis by blast
qed

theorem empty_api_key_is_absent_witness:
  "BatchRouter_init (Some []) None None example_world =
     BatchRouter_init None None None example_world \<and>
   (\<exists>m. BatchRouter_init (Some []) None None example_world =
          (Inl (Raised AuthenticationError m (Some 401)), example_world)) \<and>
   (\<exists>self w'. BatchRouter_init (Some []) None None example_world_env = (Inr self, w') \<and>
      api_key self = ''br_env_key_456'') \<and>
   BatchRouter_init (Some ''br_test_key_123'') None None example_world =
     (Inr example_client, example_world\<lparr>http_clients := [60]\<rparr>) \<and>
   api_key example_client \<noteq> []"
proof -
  have 1: "BatchRouter_init (Some []) None None example_world =
     BatchRouter_init None None None example_world"
    using empty_api_key_is_absent [of None None example_world None] by blast
  have "\<not> truthy_opt_str (environ example_world ''BATCHROUTER_API_KEY'')"
    by (simp add: example_world_def)
  then have 2: "\<exists>m. BatchRouter_init (Some []) None None example_world =
          (Inl (Raised AuthenticationError m (Some 401)), example_world)"
    using empty_api_key_is_absent [of None None example_world None] by blast
  have "environ example_world_env ''BATCHROUTER_API_KEY'' = Some ''br_env_key_456'' \<and>
      prefix ''br_'' ''br_env_key_456''"
    by (simp add: example_world_env_def)
  then have 3: "\<exists>self w'. BatchRouter_init (Some []) None None example_world_env = (Inr self, w') \<and>
      api_key self = ''br_env_key_456''"
    using empty_api_key_is_absent [of None None example_world_env None] by blast
  have 4: "api_key example_client \<noteq> []"
    using empty_api_key_is_absent [of None None example_world "Some ''br_test_key_123''"]
      example_init by blast
  from 1 2 3 4 example_init show ?thesis by blast
qed

section \<open>Facts about the resource classes\<close>

lemma create_payload_cases:
  "create_payload dn m p d =
     [(''dataset_name'', JStr dn), (''model'', JStr m)]
     @ (if truthy_opt_str p then [(''provider'', JStr (the p))] else [])
     @ (if truthy_opt_str d then [(''description'', JStr (the d))] else [])"
  by (cases p; cases d) (simp_all add: create_payload_def)

lemma Batches_create_sent:
  "sent (snd (Batches_create L self dn m p d w)) =
     sent w @ [build_request self ''POST'' ''/v1/batches'' None
        (Some (create_payload dn (case m of None \<Rightarrow> ''auto'' | Some x \<Rightarrow> x) p d)) None None]"
proof -
  have "snd (Batches_create L self dn m p d w) =
        snd (request L self ''POST'' ''/v1/batches'' None
          (Some (create_payload dn (case m of None \<Rightarrow> ''auto'' | Some x \<Rightarrow> x) p d)) None None w)"
    by (simp add: Batches_create_def Let_def split: prod.splits sum.splits)
  then show ?thesis by (simp add: request_sent)
qed

lemma construct_all_list_all2:
  "list_all2 (\<lambda>j x. construct new j = Inr x) js xs \<Longrightarrow> construct_all new js = Inr xs"
  by (induction rule: list_all2_induct) auto

lemma get_by_name_loop_none:
  "(\<forall>d \<in> set ds. ds_name d \<noteq> name) \<Longrightarrow> get_by_name_loop ds name = None"
  by (induction ds) auto

lemma get_by_name_loop_first:
  "(\<forall>x \<in> set pre. ds_name x \<noteq> name) \<Longrightarrow> ds_name d = name \<Longrightarrow>
     get_by_name_loop (pre @ d # post) name = Some d"
  by (induction pre) auto

lemma Datasets_list_sent:
  "sent (snd (Datasets_list L self page page_size w)) =
     sent w @ [build_request self ''GET'' ''/v1/datasets''
        (Some [(''page'', JInt (case page of None \<Rightarrow> 1 | Some p \<Rightarrow> p)),
               (''page_size'', JInt (case page_size of None \<Rightarrow> 20 | Some p \<Rightarrow> p))])
        None None None]"
proof -
  have "snd (Datasets_list L self page page_size w) =
        snd (request L self ''GET'' ''/v1/datasets''
        (Some [(''page'', JInt (case page of None \<Rightarrow> 1 | Some p \<Rightarrow> p)),
               (''page_size'', JInt (case page_size of None \<Rightarrow> 20 | Some p \<Rightarrow> p))])
        None None None w)"
    by (simp add: Datasets_list_def Let_def split: prod.splits sum.splits json.splits)
  then show ?thesis by (simp add: request_sent)
qed

lemma Datasets_list_page:
  assumes "respond L (sent w) (build_request self ''GET'' ''/v1/datasets''
        (Some [(''page'', JInt (case page of None \<Rightarrow> 1 | Some p \<Rightarrow> p)),
               (''page_size'', JInt (case page_size of None \<Rightarrow> 20 | Some p \<Rightarrow> p))])
        None None None) = Inr r"
    and "is_success r" and "resp_status_code r \<noteq> 204"
    and "resp_json r = Some (JObj body)"
  shows "fst (Datasets_list L self page page_size w) =
     (case py_iter (case dict_get body ''data'' of None \<Rightarrow> JArr [] | Some v \<Rightarrow> v) of
        Inl e \<Rightarrow> Inl e
      | Inr js \<Rightarrow> construct_all (Dataset_new L) js)"
proof -
  let ?params = "Some [(''page'', JInt (case page of None \<Rightarrow> 1 | Some p \<Rightarrow> p)),
               (''page_size'', JInt (case page_size of None \<Rightarrow> 20 | Some p \<Rightarrow> p))]"
  have "fst (request L self ''GET'' ''/v1/datasets'' ?params None None None w) = Inr (JObj body)"
    using request_success [OF assms(1) assms(2)] assms(3) assms(4) by simp
  then show ?thesis
    by (cases "request L self ''GET'' ''/v1/datasets'' ?params None None None w")
       (simp add: Datasets_list_def split: sum.splits)
qed

lemma get_by_name_result:
  "Datasets_get_by_name L self name w =
     (case Datasets_list L self None (Some 100) w of
        (Inl e, w') \<Rightarrow> (Inl e, w')
      | (Inr ds, w') \<Rightarrow> (Inr (get_by_name_loop ds name), w'))"
  by (simp add: Datasets_get_by_name_def split: prod.splits sum.splits)

lemma Models_get_result:
  "fst (Models_get L self name w) =
     (case fst (request L self ''GET'' (''/v1/routing/models/'' @ name) None None None None w) of
        Inl e \<Rightarrow> Inl e
      | Inr body \<Rightarrow>
          if truthy body then
            (case construct (Model_new L) body of Inl e \<Rightarrow> Inl e | Inr m \<Rightarrow> Inr (Some m))
          else Inr None)"
  by (simp add: Models_get_def split: prod.splits sum.splits)

text \<open>
  Claim C5. \<open>Batches.create\<close> with the dataset name \<^verbatim>\<open>ds\<close> and nothing else dispatches
  one POST whose JSON body is exactly \<^verbatim>\<open>{"dataset_name": "ds", "model": "auto"}\<close>. In
  every call the body has \<open>dataset_name\<close> and \<open>model\<close>, and has \<open>provider\<close>
  (\<open>description\<close>) exactly when that argument is truthy, that is given and not empty,
  then with the argument as its value.
\<close>

theorem Batches_create_body:
  "sent (snd (Batches_create L self ''ds'' None None None w)) =
     sent w @ [\<lparr>req_method = ''POST'', req_url = base_url self @ ''/api/v1/batches'',
                req_headers = get_headers self, req_params = None,
                req_json = Some [(''dataset_name'', JStr ''ds''), (''model'', JStr ''auto'')],
                req_data = None, req_files = None\<rparr>]
   \<and> (\<exists>payload.
        sent (snd (Batches_create L self dn m p d w)) =
          sent w @ [\<lparr>req_method = ''POST'', req_url = base_url self @ ''/api/v1/batches'',
                     req_headers = get_headers self, req_params = None,
                     req_json = Some payload, req_data = None, req_files = None\<rparr>]
        \<and> dict_get payload ''dataset_name'' = Some (JStr dn)
        \<and> dict_get payload ''model'' = Some (JStr (case m of None \<Rightarrow> ''auto'' | Some x \<Rightarrow> x))
        \<and> dict_get payload ''provider'' = (if truthy_opt_str p then map_option JStr p else None)
        \<and> dict_get payload ''description'' = (if truthy_opt_str d then map_option JStr d else None)
        \<and> (''provider'' \<in> set (map fst payload)) = truthy_opt_str p
        \<and> (''description'' \<in> set (map fst payload)) = truthy_opt_str d
        \<and> distinct (map fst payload))"
proof -
  have 1: "sent (snd (Batches_create L self ''ds'' None None None w)) =
     sent w @ [\<lparr>req_method = ''POST'', req_url = base_url self @ ''/api/v1/batches'',
                req_headers = get_headers self, req_params = None,
                req_json = Some [(''dataset_name'', JStr ''ds''), (''model'', JStr ''auto'')],
                req_data = None, req_files = None\<rparr>]"
    by (simp add: Batches_create_sent build_request_def create_payload_def)
  let ?payload = "create_payload dn (case m of None \<Rightarrow> ''auto'' | Some x \<Rightarrow> x) p d"
  have 2: "sent (snd (Batches_create L self dn m p d w)) =
          sent w @ [\<lparr>req_method = ''POST'', req_url = base_url self @ ''/api/v1/batches'',
                     req_headers = get_headers self, req_params = None,
                     req_json = Some ?payload, req_data = None, req_files = None\<rparr>]"
    by (simp add: Batches_create_sent build_request_def)
  have 3: "dict_get ?payload ''dataset_name'' = Some (JStr dn)"
    "dict_get ?payload ''model'' = Some (JStr (case m of None \<Rightarrow> ''auto'' | Some x \<Rightarrow> x))"
    by (simp_all add: create_payload_cases dict_get_def)
  have 4: "dict_get ?payload ''provider'' = (if truthy_opt_str p then map_option JStr p else None)"
    by (cases p) (simp_all add: create_payload_cases dict_get_def)
  have 5: "dict_get ?payload ''description'' = (if truthy_opt_str d then map_option JStr d else None)"
    by (cases d) (simp_all add: create_payload_cases dict_get_def)
  have 6: "(''provider'' \<in> set (map fst ?payload)) = truthy_opt_str p"
    by (cases "truthy_opt_str p"; cases "truthy_opt_str d"; simp add: create_payload_cases)
  have 7: "(''description'' \<in> set (map fst ?payload)) = truthy_opt_str d"
    by (cases "truthy_opt_str p"; cases "truthy_opt_str d"; simp add: create_payload_cases)
  have 8: "distinct (map fst ?payload)"
    by (simp add: create_payload_cases)
  from 1 2 3 4 5 6 7 8 show ?thesis by blast
qed

theorem Batches_create_body_witness:
  "\<exists>payload.
     sent (snd (Batches_create (example_externals (example_response 200 None [])) example_client
        ''ds'' None (Some ''openai'') (Some []) example_world)) =
       [\<lparr>req_method = ''POST'', req_url = ''https://api.batchrouter.ai/api/v1/batches'',
         req_headers = get_headers example_client, req_params = None,
         req_json = Some payload, req_data = None, req_files = None\<rparr>] \<and>
     dict_get payload ''dataset_name'' = Some (JStr ''ds'') \<and>
     dict_get payload ''model'' = Some (JStr ''auto'') \<and>
     dict_get payload ''provider'' = Some (JStr ''openai'') \<and>
     dict_get payload ''description'' = None \<and>
     ''description'' \<notin> set (map fst payload)"
proof -
  let ?L = "example_externals (example_response 200 None [])"
  have here: "sent example_world = []"
    "base_url example_client @ ''/api/v1/batches'' = ''https://api.batchrouter.ai/api/v1/batches''"
    by (simp_all add: example_world_def example_client_def)
  obtain payload where
    req: "sent (snd (Batches_create ?L example_client ''ds'' None (Some ''openai'') (Some [])
            example_world)) =
          sent example_world @
            [\<lparr>req_method = ''POST'', req_url = base_url example_client @ ''/api/v1/batches'',
              req_headers = get_headers example_client, req_params = None,
              req_json = Some payload, req_data = None, req_files = None\<rparr>]"
    and keys: "dict_get payload ''dataset_name'' = Some (JStr ''ds'')"
      "dict_get payload ''model'' = Some (JStr (case None of None \<Rightarrow> ''auto'' | Some x \<Rightarrow> x))"
      "dict_get payload ''provider'' =
         (if truthy_opt_str (Some ''openai'') then map_option JStr (Some ''openai'') else None)"
      "dict_get payload ''description'' =
         (if truthy_opt_str (Some []) then map_option JStr (Some []) else None)"
      "(''description'' \<in> set (map fst payload)) = truthy_opt_str (Some [])"
    using Batches_create_body [of ?L example_client example_world "''ds''" None
        "Some ''openai''" "Some []"]
    by blast
  show ?thesis
    using req keys by (intro exI [of _ payload]) (simp add: here)
qed

text \<open>
  Claim C6. \<open>Datasets.get_by_name\<close> dispatches exactly one request, a GET of
  \<^verbatim>\<open>/v1/datasets\<close> for page 1 with page size 100. When the transport answers it with
  a page, a decoded object whose \<open>data\<close> is the list \<open>js\<close>, and \<open>ds\<close> are the datasets
  constructed from the elements of \<open>js\<close>, one by one in their order, then these are
  what \<open>Datasets.list\<close> returns and what is scanned: the result is \<open>None\<close> (a value,
  not an exception) when no dataset of \<open>ds\<close> has the name, and otherwise the first
  dataset of \<open>ds\<close> that has it. A page without \<open>data\<close> gives \<open>None\<close> too.
\<close>

theorem get_by_name_first_match:
  "sent (snd (Datasets_get_by_name L self name w)) =
     sent w @ [\<lparr>req_method = ''GET'', req_url = base_url self @ ''/api/v1/datasets'',
                req_headers = get_headers self,
                req_params = Some [(''page'', JInt 1), (''page_size'', JInt 100)],
                req_json = None, req_data = None, req_files = None\<rparr>] \<and>
   (\<forall>r body.
      respond L (sent w)
        \<lparr>req_method = ''GET'', req_url = base_url self @ ''/api/v1/datasets'',
         req_headers = get_headers self,
         req_params = Some [(''page'', JInt 1), (''page_size'', JInt 100)],
         req_json = None, req_data = None, req_files = None\<rparr> = Inr r \<and>
      is_success r \<and> resp_status_code r \<noteq> 204 \<and> resp_json r = Some (JObj body) \<longrightarrow>
      (dict_get body ''data'' = None \<longrightarrow>
         fst (Datasets_get_by_name L self name w) = Inr None) \<and>
      (\<forall>js ds. dict_get body ''data'' = Some (JArr js) \<and>
           list_all2 (\<lambda>j d. construct (Dataset_new L) j = Inr d) js ds \<longrightarrow>
         fst (Datasets_list L self None (Some 100) w) = Inr ds \<and>
         ((\<forall>d \<in> set ds. ds_name d \<noteq> name) \<longrightarrow>
            fst (Datasets_get_by_name L self name w) = Inr None) \<and>
         (\<forall>pre d post. ds = pre @ d # post \<and> (\<forall>x \<in> set pre. ds_name x \<noteq> name) \<and>
              ds_name d = name \<longrightarrow>
            fst (Datasets_get_by_name L self name w) = Inr (Some d))))"
proof -
  let ?req = "\<lparr>req_method = ''GET'', req_url = base_url self @ ''/api/v1/datasets'',
         req_headers = get_headers self,
         req_params = Some [(''page'', JInt 1), (''page_size'', JInt 100)],
         req_json = None, req_data = None, req_files = None\<rparr>"
  have built: "build_request self ''GET'' ''/v1/datasets''
      (Some [(''page'', JInt 1), (''page_size'', JInt 100)]) None None None = ?req"
    by (simp add: build_request_def)
  have "snd (Datasets_get_by_name L self name w) = snd (Datasets_list L self None (Some 100) w)"
    by (simp add: get_by_name_result split: prod.splits sum.splits)
  then have 1: "sent (snd (Datasets_get_by_name L self name w)) = sent w @ [?req]"
    by (simp add: Datasets_list_sent build_request_def)
  have scan: "fst (Datasets_get_by_name L self name w) = Inr (get_by_name_loop ds name)"
    if "fst (Datasets_list L self None (Some 100) w) = Inr ds" for ds
    using that by (cases "Datasets_list L self None (Some 100) w") (simp add: get_by_name_result)
  have 2: "(dict_get body ''data'' = None \<longrightarrow>
         fst (Datasets_get_by_name L self name w) = Inr None) \<and>
      (\<forall>js ds. dict_get body ''data'' = Some (JArr js) \<and>
           list_all2 (\<lambda>j d. construct (Dataset_new L) j = Inr d) js ds \<longrightarrow>
         fst (Datasets_list L self None (Some 100) w) = Inr ds \<and>
         ((\<forall>d \<in> set ds. ds_name d \<noteq> name) \<longrightarrow>
            fst (Datasets_get_by_name L self name w) = Inr None) \<and>
         (\<forall>pre d post. ds = pre @ d # post \<and> (\<forall>x \<in> set pre. ds_name x \<noteq> name) \<and>
              ds_name d = name \<longrightarrow>
            fst (Datasets_get_by_name L self name w) = Inr (Some d)))"
    if answer: "respond L (sent w) ?req = Inr r" "is_success r" "resp_status_code r \<noteq> 204"
      "resp_json r = Some (JObj body)" for r body
  proof -
    have page: "fst (Datasets_list L self None (Some 100) w) =
       (case py_iter (case dict_get body ''data'' of None \<Rightarrow> JArr [] | Some v \<Rightarrow> v) of
          Inl e \<Rightarrow> Inl e
        | Inr js \<Rightarrow> construct_all (Dataset_new L) js)"
    proof (rule Datasets_list_page)
      show "respond L (sent w) (build_request self ''GET'' ''/v1/datasets''
          (Some [(''page'', JInt (case None of None \<Rightarrow> 1 | Some p \<Rightarrow> p)),
                 (''page_size'', JInt (case Some 100 of None \<Rightarrow> 20 | Some p \<Rightarrow> p))])
          None None None) = Inr r"
        using answer(1) by (simp add: built)
    qed (use answer in simp_all)
    have absent: "fst (Datasets_get_by_name L self name w) = Inr None"
      if "dict_get body ''data'' = None"
    proof -
      have "fst (Datasets_list L self None (Some 100) w) = Inr []"
        using page that by simp
      then show ?thesis
        using scan [of "[]"] by simp
    qed
    have present: "fst (Datasets_list L self None (Some 100) w) = Inr ds \<and>
         ((\<forall>d \<in> set ds. ds_name d \<noteq> name) \<longrightarrow>
            fst (Datasets_get_by_name L self name w) = Inr None) \<and>
         (\<forall>pre d post. ds = pre @ d # post \<and> (\<forall>x \<in> set pre. ds_name x \<noteq> name) \<and>
              ds_name d = name \<longrightarrow>
            fst (Datasets_get_by_name L self name w) = Inr (Some d))"
      if data: "dict_get body ''data'' = Some (JArr js)"
        and all: "list_all2 (\<lambda>j d. construct (Dataset_new L) j = Inr d) js ds" for js ds
    proof -
      have l: "fst (Datasets_list L self None (Some 100) w) = Inr ds"
        using page data construct_all_list_all2 [OF all] by simp
      show ?thesis
        using l scan [OF l] get_by_name_loop_none get_by_name_loop_first by simp
    qed
    from absent present show ?thesis by blast
  qed
  from 1 2 show ?thesis by blast
qed

theorem get_by_name_first_match_witness:
  "fst (Datasets_get_by_name (example_externals (example_response 200 (Some example_page) []))
      example_client ''target-dataset'' example_world) =
     Inr (Some \<lparr>ds_id = ''ds_2'', ds_name = ''target-dataset'', ds_description = None,
                ds_file_size = None, ds_record_count = None, ds_status = ''validated'',
                ds_validation_error = None, ds_created_at = Datetime ''2025-01-02T00:00:00Z'',
                ds_updated_at = None\<rparr>) \<and>
   fst (Datasets_get_by_name (example_externals (example_response 200 (Some example_page) []))
      example_client ''nonexistent'' example_world) = Inr None \<and>
   fst (Datasets_get_by_name
      (example_externals (example_response 200 (Some (JObj [(''total'', JInt 0)])) []))
      example_client ''nonexistent'' example_world) = Inr None"
proof -
  let ?r = "example_response 200 (Some example_page) []"
  let ?L = "example_externals ?r"
  let ?bare = "example_response 200 (Some (JObj [(''total'', JInt 0)])) []"
  let ?Lbare = "example_externals ?bare"
  let ?req = "\<lparr>req_method = ''GET'', req_url = base_url example_client @ ''/api/v1/datasets'',
         req_headers = get_headers example_client,
         req_params = Some [(''page'', JInt 1), (''page_size'', JInt 100)],
         req_json = None, req_data = None, req_files = None\<rparr>"
  let ?j1 = "JObj [(''id'', JStr ''ds_1''), (''name'', JStr ''other-dataset''),
              (''status'', JStr ''validated''), (''created_at'', JStr ''2025-01-01T00:00:00Z'')]"
  let ?j2 = "JObj [(''id'', JStr ''ds_2''), (''name'', JStr ''target-dataset''),
              (''status'', JStr ''validated''), (''created_at'', JStr ''2025-01-02T00:00:00Z'')]"
  let ?j3 = "JObj [(''id'', JStr ''ds_3''), (''name'', JStr ''target-dataset''),
              (''status'', JStr ''pending''), (''created_at'', JStr ''2025-01-03T00:00:00Z'')]"
  let ?d1 = "\<lparr>ds_id = ''ds_1'', ds_name = ''other-dataset'', ds_description = None,
                ds_file_size = None, ds_record_count = None, ds_status = ''validated'',
                ds_validation_error = None, ds_created_at = Datetime ''2025-01-01T00:00:00Z'',
                ds_updated_at = None\<rparr>"
  let ?d2 = "\<lparr>ds_id = ''ds_2'', ds_name = ''target-dataset'', ds_description = None,
                ds_file_size = None, ds_record_count = None, ds_status = ''validated'',
                ds_validation_error = None, ds_created_at = Datetime ''2025-01-02T00:00:00Z'',
                ds_updated_at = None\<rparr>"
  let ?d3 = "\<lparr>ds_id = ''ds_3'', ds_name = ''target-dataset'', ds_description = None,
                ds_file_size = None, ds_record_count = None, ds_status = ''pending'',
                ds_validation_error = None, ds_created_at = Datetime ''2025-01-03T00:00:00Z'',
                ds_updated_at = None\<rparr>"
  have b1: "respond ?L (sent example_world) ?req = Inr ?r"
    by (simp add: example_externals_def)
  have b2: "is_success ?r"
    by (simp add: example_response_def is_success_def)
  have b3: "resp_status_code ?r \<noteq> 204"
    by (simp add: example_response_def)
  have b4: "resp_json ?r = Some (JObj [(''data'', JArr [?j1, ?j2, ?j3])])"
    by (simp add: example_response_def example_page_def)
  note answer = b1 b2 b3 b4
  have data: "dict_get [(''data'', JArr [?j1, ?j2, ?j3])] ''data'' = Some (JArr [?j1, ?j2, ?j3])"
    by (simp add: dict_get_def)
  have constructed:
    "list_all2 (\<lambda>j d. construct (Dataset_new ?L) j = Inr d) [?j1, ?j2, ?j3] [?d1, ?d2, ?d3]"
    by (simp add: construct_def example_externals_def example_Dataset_new_def dict_get_def)
  have split: "[?d1, ?d2, ?d3] = [?d1] @ ?d2 # [?d3] \<and>
      (\<forall>x \<in> set [?d1]. ds_name x \<noteq> ''target-dataset'') \<and> ds_name ?d2 = ''target-dataset''"
    by simp
  have 1: "fst (Datasets_get_by_name ?L example_client ''target-dataset'' example_world) =
      Inr (Some ?d2)"
    using get_by_name_first_match [of ?L example_client "''target-dataset''" example_world]
      answer data constructed split by blast
  have none: "\<forall>d \<in> set [?d1, ?d2, ?d3]. ds_name d \<noteq> ''nonexistent''"
    by simp
  have 2: "fst (Datasets_get_by_name ?L example_client ''nonexistent'' example_world) = Inr None"
    using get_by_name_first_match [of ?L example_client "''nonexistent''" example_world]
      answer data constructed none by blast
  have answer0: "respond ?Lbare (sent example_world) ?req = Inr ?bare \<and> is_success ?bare \<and>
      resp_status_code ?bare \<noteq> 204 \<and> resp_json ?bare = Some (JObj [(''total'', JInt 0)])"
    by (simp add: example_externals_def example_response_def is_success_def)
  have data0: "dict_get [(''total'', JInt 0)] ''data'' = None"
    by (simp add: dict_get_def)
  have 3: "fst (Datasets_get_by_name ?Lbare example_client ''nonexistent'' example_world) = Inr None"
    using get_by_name_first_match [of ?Lbare example_client "''nonexistent''" example_world]
      answer0 data0 by blast
  from 1 2 3 show ?thesis by blast
qed

section \<open>Facts about the requests built\<close>

lemma takeWhile_eq_replicate:
  "takeWhile (\<lambda>c. c = x) xs = replicate (length (takeWhile (\<lambda>c. c = x) xs)) x"
  by (induction xs) auto

lemma rstrip_slash_decomp:
  "u = rstrip_slash u @ replicate (length (takeWhile (\<lambda>c. c = CHR ''/'') (rev u))) CHR ''/''"
proof -
  let ?P = "\<lambda>c. c = CHR ''/''"
  let ?t = "takeWhile ?P (rev u)"
  let ?d = "dropWhile ?P (rev u)"
  have "rev (rev ?d @ rev ?t) = rev u"
    by simp
  then have "rev ?d @ rev ?t = u"
    by (simp only: rev_is_rev_conv)
  moreover have "rev ?t = replicate (length ?t) CHR ''/''"
    using takeWhile_eq_replicate [of "CHR ''/''" "rev u"] by (metis rev_replicate)
  ultimately show ?thesis
    by (simp add: rstrip_slash_def)
qed

lemma rstrip_slash_no_slash: "\<not> suffix ''/'' (rstrip_slash u)"
proof
  assume "suffix ''/'' (rstrip_slash u)"
  then obtain ys where "rstrip_slash u = ys @ ''/''"
    by (auto simp: suffix_def)
  then have "rev (rev (dropWhile (\<lambda>c. c = CHR ''/'') (rev u))) = rev (ys @ ''/'')"
    by (simp only: rstrip_slash_def)
  then have "dropWhile (\<lambda>c. c = CHR ''/'') (rev u) = CHR ''/'' # rev ys"
    by simp
  then show False
    by (simp add: dropWhile_eq_Cons_conv)
qed

text \<open>
  Claim C7. The one request that \<open>request\<close> dispatches goes to the client's base URL
  followed by \<^verbatim>\<open>/api\<close> and the path, with the headers \<^verbatim>\<open>Authorization: Bearer\<close> and the
  credential, \<^verbatim>\<open>User-Agent: batchrouter-python/0.1.0\<close> and, unless \<open>files\<close> is truthy,
  \<^verbatim>\<open>Content-Type: application/json\<close>; \<open>request_raw\<close> sends all three. For a client the
  constructor returned, the base URL is the given one (or the default) without its
  trailing slashes, and the credential is the argument or the environment's value.
\<close>

theorem request_url_and_headers:
  "(\<exists>req. sent (snd (request L self method path params j data files w)) = sent w @ [req] \<and>
      req_url req = base_url self @ ''/api'' @ path \<and>
      dict_get (req_headers req) ''Authorization'' = Some (''Bearer '' @ api_key self) \<and>
      dict_get (req_headers req) ''User-Agent'' = Some ''batchrouter-python/0.1.0'' \<and>
      dict_get (req_headers req) ''Content-Type'' =
        (if truthy_opt_dict files then None else Some ''application/json'')) \<and>
   (\<exists>req. sent (snd (request_raw L self method path w)) = sent w @ [req] \<and>
      req_url req = base_url self @ ''/api'' @ path \<and>
      dict_get (req_headers req) ''Authorization'' = Some (''Bearer '' @ api_key self) \<and>
      dict_get (req_headers req) ''User-Agent'' = Some ''batchrouter-python/0.1.0'' \<and>
      dict_get (req_headers req) ''Content-Type'' = Some ''application/json'') \<and>
   (\<forall>a b t w0 w1. BatchRouter_init a b t w0 = (Inr self, w1) \<longrightarrow>
      (\<exists>n. (case b of None \<Rightarrow> DEFAULT_BASE_URL | Some x \<Rightarrow> x) =
              base_url self @ replicate n CHR ''/'') \<and>
      \<not> suffix ''/'' (base_url self) \<and>
      (a = Some (api_key self) \<or>
       (\<not> truthy_opt_str a \<and> environ w0 ''BATCHROUTER_API_KEY'' = Some (api_key self))))"
proof -
  have 1: "\<exists>req. sent (snd (request L self method path params j data files w)) = sent w @ [req] \<and>
      req_url req = base_url self @ ''/api'' @ path \<and>
      dict_get (req_headers req) ''Authorization'' = Some (''Bearer '' @ api_key self) \<and>
      dict_get (req_headers req) ''User-Agent'' = Some ''batchrouter-python/0.1.0'' \<and>
      dict_get (req_headers req) ''Content-Type'' =
        (if truthy_opt_dict files then None else Some ''application/json'')"
    by (simp add: request_sent build_request_def get_headers_def dict_get_def dict_del_def)
  have 2: "\<exists>req. sent (snd (request_raw L self method path w)) = sent w @ [req] \<and>
      req_url req = base_url self @ ''/api'' @ path \<and>
      dict_get (req_headers req) ''Authorization'' = Some (''Bearer '' @ api_key self) \<and>
      dict_get (req_headers req) ''User-Agent'' = Some ''batchrouter-python/0.1.0'' \<and>
      dict_get (req_headers req) ''Content-Type'' = Some ''application/json''"
    by (simp add: request_raw_sent build_request_raw_def get_headers_def dict_get_def)
  have 3: "(\<exists>n. (case b of None \<Rightarrow> DEFAULT_BASE_URL | Some x \<Rightarrow> x) =
              base_url self @ replicate n CHR ''/'') \<and>
      \<not> suffix ''/'' (base_url self) \<and>
      (a = Some (api_key self) \<or>
       (\<not> truthy_opt_str a \<and> environ w0 ''BATCHROUTER_API_KEY'' = Some (api_key self)))"
    if init: "BatchRouter_init a b t w0 = (Inr self, w1)" for a b t w0 w1
  proof -
    let ?u = "case b of None \<Rightarrow> DEFAULT_BASE_URL | Some x \<Rightarrow> x"
    have url: "base_url self = rstrip_slash ?u"
      and key: "a = Some (api_key self) \<or>
        (\<not> truthy_opt_str a \<and> environ w0 ''BATCHROUTER_API_KEY'' = Some (api_key self))"
      using init_Inr [OF init] by simp_all
    have "?u = base_url self @ replicate (length (takeWhile (\<lambda>c. c = CHR ''/'') (rev ?u))) CHR ''/''"
      using rstrip_slash_decomp [of ?u] by (simp only: url)
    then have "\<exists>n. ?u = base_url self @ replicate n CHR ''/''"
      by (rule exI)
    moreover have "\<not> suffix ''/'' (base_url self)"
      using rstrip_slash_no_slash [of ?u] by (simp add: url)
    ultimately show ?thesis
      using key by blast
  qed
  from 1 2 3 show ?thesis by blast
qed

theorem request_url_and_headers_witness:
  "BatchRouter_init (Some ''br_test_key_123'') (Some ''https://custom.api.com/'') None example_world =
     (Inr \<lparr>api_key = ''br_test_key_123'', base_url = ''https://custom.api.com'', timeout = 60\<rparr>,
      example_world\<lparr>http_clients := [60]\<rparr>) \<and>
   (\<exists>n. ''https://custom.api.com/'' = ''https://custom.api.com'' @ replicate n CHR ''/'') \<and>
   \<not> suffix ''/'' ''https://custom.api.com'' \<and>
   (\<exists>req. sent (snd (request (example_externals (example_response 200 (Some (JObj [])) []))
        \<lparr>api_key = ''br_test_key_123'', base_url = ''https://custom.api.com'', timeout = 60\<rparr>
        ''POST'' ''/v1/datasets'' None None (Some [(''name'', JStr ''my-dataset'')])
        (Some [(''file'', (''my-dataset'', [], ''application/jsonl''))]) example_world)) = [req] \<and>
      req_url req = ''https://custom.api.com/api/v1/datasets'' \<and>
      dict_get (req_headers req) ''Authorization'' = Some ''Bearer br_test_key_123'' \<and>
      dict_get (req_headers req) ''User-Agent'' = Some ''batchrouter-python/0.1.0'' \<and>
      dict_get (req_headers req) ''Content-Type'' = None)"
proof -
  let ?c = "\<lparr>api_key = ''br_test_key_123'', base_url = ''https://custom.api.com'', timeout = 60\<rparr>"
  let ?L = "example_externals (example_response 200 (Some (JObj [])) [])"
  let ?files = "Some [(''file'', (''my-dataset'', [] :: bytes, ''application/jsonl''))]"
  note T = request_url_and_headers [of ?L ?c "''POST''" "''/v1/datasets''" None None
      "Some [(''name'', JStr ''my-dataset'')]" ?files example_world]
  have init: "BatchRouter_init (Some ''br_test_key_123'') (Some ''https://custom.api.com/'') None
      example_world = (Inr ?c, example_world\<lparr>http_clients := [60]\<rparr>)"
    by (simp add: BatchRouter_init_def example_world_def DEFAULT_TIMEOUT_def rstrip_slash_def)
  have 1: "(\<exists>n. ''https://custom.api.com/'' = ''https://custom.api.com'' @ replicate n CHR ''/'') \<and>
      \<not> suffix ''/'' ''https://custom.api.com''"
    using T init by fastforce
  have 2: "\<exists>req. sent (snd (request ?L ?c ''POST'' ''/v1/datasets'' None None
        (Some [(''name'', JStr ''my-dataset'')]) ?files example_world)) = [req] \<and>
      req_url req = ''https://custom.api.com/api/v1/datasets'' \<and>
      dict_get (req_headers req) ''Authorization'' = Some ''Bearer br_test_key_123'' \<and>
      dict_get (req_headers req) ''User-Agent'' = Some ''batchrouter-python/0.1.0'' \<and>
      dict_get (req_headers req) ''Content-Type'' = None"
    using T by (simp add: example_world_def)
  from init 1 2 show ?thesis by blast
qed

text \<open>
  Claim C8. When the transport answers with status 204, \<open>request\<close> returns \<open>None\<close>
  whatever the body is, also one that does not decode; on any other status from 200
  to 299 it returns the decoded body, and the decoder's exception if there is none.
\<close>

theorem request_no_content:
  "respond L (sent w) (build_request self method path params j data files) = Inr r \<longrightarrow>
     (resp_status_code r = 204 \<longrightarrow>
        fst (request L self method path params j data files w) = Inr JNull) \<and>
     (is_success r \<and> resp_status_code r \<noteq> 204 \<longrightarrow>
        fst (request L self method path params j data files w) =
          (case resp_json r of None \<Rightarrow> Inl JSONDecodeError | Some v \<Rightarrow> Inr v))"
  using request_success [of L w self "method" path params j data files r]
    is_success_204 [of r]
  by simp

theorem request_no_content_witness:
  "fst (request (example_externals (example_response 204 None [])) example_client
      ''DELETE'' ''/v1/datasets/ds_123'' None None None None example_world) = Inr JNull \<and>
   fst (request (example_externals (example_response 200 (Some example_page) [])) example_client
      ''GET'' ''/v1/datasets'' None None None None example_world) = Inr example_page \<and>
   fst (request (example_externals (example_response 200 None ''<html>'')) example_client
      ''GET'' ''/v1/datasets'' None None None None example_world) = Inl JSONDecodeError"
proof -
  have 1: "fst (request (example_externals (example_response 204 None [])) example_client
      ''DELETE'' ''/v1/datasets/ds_123'' None None None None example_world) = Inr JNull"
    using request_no_content [of "example_externals (example_response 204 None [])" example_world
        example_client "''DELETE''" "''/v1/datasets/ds_123''" None None None None
        "example_response 204 None []"]
    by (simp add: example_externals_def example_response_def)
  have 2: "fst (request (example_externals (example_response 200 (Some example_page) []))
      example_client ''GET'' ''/v1/datasets'' None None None None example_world) = Inr example_page"
    using request_no_content [of "example_externals (example_response 200 (Some example_page) [])"
        example_world example_client "''GET''" "''/v1/datasets''" None None None None
        "example_response 200 (Some example_page) []"]
    by (simp add: example_externals_def example_response_def is_success_def)
  have 3: "fst (request (example_externals (example_response 200 None ''<html>'')) example_client
      ''GET'' ''/v1/datasets'' None None None None example_world) = Inl JSONDecodeError"
    using request_no_content [of "example_externals (example_response 200 None ''<html>'')"
        example_world example_client "''GET''" "''/v1/datasets''" None None None None
        "example_response 200 None ''<html>''"]
    by (simp add: example_externals_def example_response_def is_success_def)
  from 1 2 3 show ?thesis by blast
qed

text \<open>
  Claim C10. \<open>Models.get\<close> returns \<open>None\<close> whenever the decoded body of a successful
  answer is falsy, which a \<^verbatim>\<open>null\<close> body is and an empty object \<^verbatim>\<open>{}\<close> is too; when it
  returns a \<open>Model\<close>, the body was truthy and the model was constructed from it.
\<close>

theorem Models_get_falsy_body:
  "fst (request L self ''GET'' (''/v1/routing/models/'' @ name) None None None None w) = Inr body \<longrightarrow>
     (\<not> truthy body \<longrightarrow> fst (Models_get L self name w) = Inr None) \<and>
     (body = JNull \<or> body = JObj [] \<longrightarrow> fst (Models_get L self name w) = Inr None) \<and>
     (\<forall>m. fst (Models_get L self name w) = Inr (Some m) \<longrightarrow>
        truthy body \<and> (\<exists>kw. body = JObj kw \<and> Model_new L kw = Inr m))"
proof
  assume b: "fst (request L self ''GET'' (''/v1/routing/models/'' @ name) None None None None w) = Inr body"
  have 1: "\<not> truthy body \<longrightarrow> fst (Models_get L self name w) = Inr None"
    using b by (simp add: Models_get_result)
  have 2: "body = JNull \<or> body = JObj [] \<longrightarrow> fst (Models_get L self name w) = Inr None"
    using 1 by auto
  have 3: "\<forall>m. fst (Models_get L self name w) = Inr (Some m) \<longrightarrow>
        truthy body \<and> (\<exists>kw. body = JObj kw \<and> Model_new L kw = Inr m)"
    using b by (cases body) (auto simp add: Models_get_result construct_def split: if_splits sum.splits)
  from 1 2 3 show "(\<not> truthy body \<longrightarrow> fst (Models_get L self name w) = Inr None) \<and>
     (body = JNull \<or> body = JObj [] \<longrightarrow> fst (Models_get L self name w) = Inr None) \<and>
     (\<forall>m. fst (Models_get L self name w) = Inr (Some m) \<longrightarrow>
        truthy body \<and> (\<exists>kw. body = JObj kw \<and> Model_new L kw = Inr m))"
    by blast
qed

theorem Models_get_falsy_body_witness:
  "fst (Models_get (example_externals (example_response 200 (Some (JObj [])) ''{}''))
      example_client ''gpt-4o'' example_world) = Inr None \<and>
   fst (Models_get (example_externals (example_response 200 (Some JNull) ''null''))
      example_client ''gpt-4o'' example_world) = Inr None \<and>
   fst (Models_get (example_externals
        (example_response 200 (Some (JObj [(''name'', JStr ''gpt-4o'')])) []))
      example_client ''gpt-4o'' example_world) =
     Inr (Some \<lparr>m_name = ''gpt-4o'', m_display_name = None, m_description = None,
                m_context_window = None, m_max_output_tokens = None, m_capabilities = [],
                m_is_deprecated = False, m_release_date = None, m_providers = []\<rparr>) \<and>
   truthy (JObj [(''name'', JStr ''gpt-4o'')])"
proof -
  let ?L1 = "example_externals (example_response 200 (Some (JObj [])) ''{}'')"
  let ?L2 = "example_externals (example_response 200 (Some JNull) ''null'')"
  let ?L3 = "example_externals (example_response 200 (Some (JObj [(''name'', JStr ''gpt-4o'')])) [])"
  let ?m = "\<lparr>m_name = ''gpt-4o'', m_display_name = None, m_description = None,
                m_context_window = None, m_max_output_tokens = None, m_capabilities = [],
                m_is_deprecated = False, m_release_date = None, m_providers = []\<rparr>"
  have b1: "fst (request ?L1 example_client ''GET'' (''/v1/routing/models/'' @ ''gpt-4o'')
      None None None None example_world) = Inr (JObj [])"
    by (simp add: request_def client_request_def example_externals_def example_response_def
        is_success_def)
  have 1: "fst (Models_get ?L1 example_client ''gpt-4o'' example_world) = Inr None"
    using Models_get_falsy_body [of ?L1 example_client "''gpt-4o''" example_world "JObj []"] b1
    by blast
  have b2: "fst (request ?L2 example_client ''GET'' (''/v1/routing/models/'' @ ''gpt-4o'')
      None None None None example_world) = Inr JNull"
    by (simp add: request_def client_request_def example_externals_def example_response_def
        is_success_def)
  have 2: "fst (Models_get ?L2 example_client ''gpt-4o'' example_world) = Inr None"
    using Models_get_falsy_body [of ?L2 example_client "''gpt-4o''" example_world JNull] b2
    by blast
  have b3: "fst (request ?L3 example_client ''GET'' (''/v1/routing/models/'' @ ''gpt-4o'')
      None None None None example_world) = Inr (JObj [(''name'', JStr ''gpt-4o'')])"
    by (simp add: request_def client_request_def example_externals_def example_response_def
        is_success_def)
  have 3: "fst (Models_get ?L3 example_client ''gpt-4o'' example_world) = Inr (Some ?m)"
    by (simp add: Models_get_def request_def client_request_def example_externals_def
        example_response_def is_success_def construct_def example_Model_new_def dict_get_def)
  have 4: "truthy (JObj [(''name'', JStr ''gpt-4o'')])"
    using Models_get_falsy_body [of ?L3 example_client "''gpt-4o''" example_world
        "JObj [(''name'', JStr ''gpt-4o'')]"] b3 3
    by blast
  from 1 2 3 4 show ?thesis by blast
qed

end
